theory Spec2Isabelle
  imports Complex_Main "HOL-Library.AList" "HOL-Library.Word"
begin

section \<open>Data model of the Lightning worker (lnworker.py)\<close>

text \<open>
  Python \<open>bytes\<close> are lists of 8-bit words. Python dictionaries keep insertion order, so
  every dictionary of the worker is an association list: \<open>d[k] = v\<close> is
  \<open>AList.update k v\<close> (replace in place, or append), \<open>del d[k]\<close> is \<open>AList.delete k\<close>
  and a lookup is \<open>map_of\<close>.
\<close>

type_synonym bytes = "8 word list"

text \<open>Every exception the modelled methods can raise.\<close>

datatype error =
    PaymentFailure string
  | InvoiceError string
  | UnknownPaymentHash bytes
  | Exception string
  | AssertionError
  | TypeError
  | AttributeError
  | KeyError
  | IndexError
  | ValueError
  | ZeroDivisionError

text \<open>The payment-request status constants imported from util, and lnutil's enums.\<close>

datatype pr_status = PR_UNPAID | PR_EXPIRED | PR_UNKNOWN | PR_PAID | PR_INFLIGHT

datatype direction = SENT | RECEIVED

text \<open>\<open>class InvoiceInfo(NamedTuple)\<close>; \<open>amount\<close> is \<open>None\<close> for an amountless invoice.\<close>

record invoice_info =
  payment_hash :: bytes
  amount :: "int option"
  direction :: direction
  status :: pr_status

text \<open>
  The fields of a \<open>Channel\<close> object that the worker reads or writes.
  \<open>remote_next_point\<close> and \<open>remote_current_point\<close> are
  \<open>config[REMOTE].next_per_commitment_point\<close> and
  \<open>config[REMOTE].current_per_commitment_point\<close>; \<open>chan_state\<close> is what
  \<open>get_state()\<close> returns; \<open>balance_remote\<close> is \<open>balance(REMOTE)\<close> in msat;
  \<open>funding_txn_minimum_depth\<close> is \<open>constraints.funding_txn_minimum_depth\<close>.
\<close>

record channel =
  channel_id :: bytes
  node_id :: bytes
  funding_txid :: string
  funding_output_index :: int
  short_channel_id :: "bytes option"
  short_channel_id_predicted :: "bytes option"
  chan_state :: string
  funding_txn_minimum_depth :: int
  remote_next_point :: "bytes option"
  remote_current_point :: "bytes option"
  balance_remote :: int

text \<open>A transaction, as far as the worker looks into it: \<open>tx.txid()\<close>.\<close>

record tx =
  tx_txid :: string

text \<open>
  \<open>SweepInfo\<close> (lnsweep): \<open>gen_tx\<close> holds what calling \<open>gen_tx()\<close> returns, \<open>None\<close>
  when the output is below dust.
\<close>

record sweep_info =
  si_name :: string
  cltv_expiry :: "int option"
  csv_delay :: "int option"
  gen_tx :: "tx option"

text \<open>
  A routing policy of the channel database, a \<open>RouteEdge\<close> (lnrouter), a path of the
  path finder (pairs of node id and short channel id), and the edges of a private route
  hint \<open>(node_id, short_channel_id, fee_base_msat, fee_proportional_millionths,
  cltv_expiry_delta)\<close>.
\<close>

record policy =
  fee_base_msat :: int
  fee_proportional_millionths :: int
  cltv_expiry_delta :: int

record channel_info =
  ci_short_channel_id :: bytes

datatype route_edge =
  RouteEdge (edge_node_id: bytes) (edge_short_channel_id: bytes) (edge_fee_base_msat: int)
    (edge_fee_proportional_millionths: int) (edge_cltv_expiry_delta: int)

type_synonym path = "(bytes \<times> bytes) list"

type_synonym hint_edge = "bytes \<times> bytes \<times> int \<times> int \<times> int"

text \<open>
  The tags of a BOLT-11 invoice are pairs of a tag letter and a value; the letter decides
  the type of the value, so a tag is a tagged union. \<open>Tag_r\<close> is \<open>('r', route)\<close>.
\<close>

datatype tag =
    Tag_r "hint_edge list"
  | Tag_d string
  | Tag_c int
  | Tag_x int
  | Tag_other string

text \<open>
  \<open>LnAddr\<close> (lnaddr), a decoded invoice: \<open>la_amount\<close> is the \<open>Decimal\<close> amount in
  coins (exact, as a rational) or \<open>None\<close>, \<open>la_pubkey\<close> is \<open>pubkey.serialize()\<close>,
  \<open>la_description\<close> is \<open>get_description()\<close>.
\<close>

record lnaddr =
  paymenthash :: bytes
  la_amount :: "rat option"
  la_pubkey :: bytes
  la_tags :: "tag list"
  la_description :: string

text \<open>
  What \<open>storage.put(key, value)\<close> is given. \<open>Channel.serialize\<close> belongs to lnchannel;
  a serialized channel is represented by the field values at the time of the call.
\<close>

datatype stored =
    StoredChannels "channel list"
  | StoredInvoices "(string \<times> (int option \<times> direction \<times> pr_status)) list"
  | StoredPreimages "(string \<times> string) list"

text \<open>
  Arguments of \<open>network.trigger_callback\<close>, and the effects of the worker on its
  collaborators, in the order they happen. A channel argument is the reference of the
  channel object, an HTLC argument its \<open>htlc_id\<close>. Log output is not an effect.
\<close>

datatype cb_arg =
    A_chan nat
  | A_str string
  | A_status pr_status
  | A_int int
  | A_wallet
  | A_htlc int
  | A_lnaddr lnaddr
  | A_direction direction

datatype effect =
    StorageWrite
  | TriggerCallback string "cb_arg list"
  | SetLabel string string
  | Broadcast tx
  | AddFutureTx tx int

text \<open>
  The worker. Channel objects are shared and mutated in place, so they live in a store
  \<open>heap\<close> from references to objects; \<open>channels\<close> is the dictionary
  \<open>channel_id \<rightarrow> Channel\<close> (holding references), \<open>invoices\<close> and \<open>preimages\<close> are the
  dictionaries of the same name, \<open>peers\<close> holds the keys of the dictionary \<open>peers\<close>,
  \<open>storage\<close> is the wallet storage's data.
\<close>

record lnwallet =
  heap :: "nat \<Rightarrow> channel"
  channels :: "(bytes \<times> nat) list"
  invoices :: "(string \<times> (int option \<times> direction \<times> pr_status)) list"
  preimages :: "(string \<times> string) list"
  peers :: "bytes list"
  storage :: "(string \<times> stored) list"
  effects :: "effect list"

text \<open>
  Everything the worker imports or is handed by its host, and that lnworker.py does not
  define: constants (\<open>COIN\<close> of bitcoin, \<open>NUM_MAX_EDGES_IN_PAYMENT_PATH\<close> of lnutil),
  the invoice decoder and the methods of \<open>LnAddr\<close>, the route sanity check of lnrouter,
  \<open>ShortChannelID.from_components\<close>, the watcher (\<open>get_tx_height(txid).conf\<close>,
  \<open>get_txpos\<close>), the channel database, the path finder, \<open>random.shuffle\<close>, the node's
  public key, the network's \<open>get_local_height\<close>, and the peer: \<open>peer_pay\<close> is
  \<open>Peer.pay\<close>, returning the \<open>htlc_id\<close> of the HTLC it added, and \<open>payment_result\<close> is
  what the future \<open>pending_payments[(short_channel_id, htlc_id)]\<close> resolves to.
\<close>

record env =
  COIN :: int
  NUM_MAX_EDGES_IN_PAYMENT_PATH :: nat
  lndecode :: "string \<Rightarrow> error + lnaddr"
  is_expired :: "lnaddr \<Rightarrow> bool"
  get_min_final_cltv_expiry :: "lnaddr \<Rightarrow> int"
  is_route_sane_to_use :: "route_edge list \<Rightarrow> int \<Rightarrow> int \<Rightarrow> bool"
  from_components :: "int \<Rightarrow> int \<Rightarrow> int \<Rightarrow> bytes"
  get_tx_height_conf :: "string \<Rightarrow> int"
  get_txpos :: "string \<Rightarrow> int \<times> int"
  get_channel_info :: "bytes \<Rightarrow> channel_info option"
  get_policy_for_node :: "bytes \<Rightarrow> bytes \<Rightarrow> policy option"
  get_routing_policy_for_channel :: "bytes \<Rightarrow> bytes \<Rightarrow> policy option"
  find_path_for_payment :: "bytes \<Rightarrow> bytes \<Rightarrow> int \<Rightarrow> channel list \<Rightarrow> path option"
  create_route_from_path :: "path \<Rightarrow> bytes \<Rightarrow> route_edge list"
  shuffle :: "hint_edge list list \<Rightarrow> hint_edge list list"
  node_keypair_pubkey :: bytes
  get_local_height :: int
  peer_pay :: "route_edge list \<Rightarrow> channel \<Rightarrow> int \<Rightarrow> bytes \<Rightarrow> int \<Rightarrow> error + int"
  payment_result :: "bytes \<Rightarrow> int \<Rightarrow> bool"

section \<open>Python values\<close>

text \<open>
  Truth value of an optional integer (\<open>if amount_sat:\<close>): \<open>None\<close> and \<open>0\<close> are false.
  \<open>int(d)\<close> of a \<open>Decimal\<close> truncates towards zero. \<open>str_int\<close> is \<open>str\<close> of an integer,
  \<open>split_colon\<close> is \<open>s.split(':')\<close>.
\<close>

definition truthy :: "int option \<Rightarrow> bool" where
  "truthy x = (case x of None \<Rightarrow> False | Some n \<Rightarrow> n \<noteq> 0)"

definition py_int :: "rat \<Rightarrow> int" where
  "py_int x = (if 0 \<le> x then \<lfloor>x\<rfloor> else \<lceil>x\<rceil>)"

fun str_nat :: "nat \<Rightarrow> string" where
  "str_nat n =
     (if n < 10 then [''0123456789'' ! n]
      else str_nat (n div 10) @ [''0123456789'' ! (n mod 10)])"

declare str_nat.simps [simp del]

definition str_int :: "int \<Rightarrow> string" where
  "str_int i = (if i < 0 then CHR ''-'' # str_nat (nat (- i)) else str_nat (nat i))"

fun split_colon :: "string \<Rightarrow> string list" where
  "split_colon [] = [[]]"
| "split_colon (c # cs) =
     (if c = CHR '':'' then [] # split_colon cs
      else (case split_colon cs of
              [] \<Rightarrow> [[c]]
            | w # ws \<Rightarrow> (c # w) # ws))"

section \<open>Hex encoding (util.bh2u, bytes.hex, util.bfh)\<close>

text \<open>
  \<open>bh2u(x)\<close> is \<open>x.hex()\<close>: two lower-case hex digits for each byte. \<open>bfh\<close> is
  \<open>bytes.fromhex\<close> on what \<open>bh2u\<close> writes: pairs of lower-case hex digits, \<open>None\<close> for
  any other string.
\<close>

definition hex_digit :: "nat \<Rightarrow> char" where
  "hex_digit n = ''0123456789abcdef'' ! n"

definition hex_byte :: "8 word \<Rightarrow> string" where
  "hex_byte w = [hex_digit (unat w div 16), hex_digit (unat w mod 16)]"

definition bh2u :: "bytes \<Rightarrow> string" where
  "bh2u x = concat (map hex_byte x)"

fun hex_val :: "char list \<Rightarrow> char \<Rightarrow> nat option" where
  "hex_val [] c = None"
| "hex_val (d # ds) c = (if c = d then Some (15 - length ds) else hex_val ds c)"

fun bfh :: "string \<Rightarrow> bytes option" where
  "bfh [] = Some []"
| "bfh [a] = None"
| "bfh (a # b # r) =
     (case hex_val ''0123456789abcdef'' a of
        None \<Rightarrow> None
      | Some hi \<Rightarrow>
          (case hex_val ''0123456789abcdef'' b of
             None \<Rightarrow> None
           | Some lo \<Rightarrow>
               (case bfh r of
                  None \<Rightarrow> None
                | Some bs \<Rightarrow> Some (word_of_nat (16 * hi + lo) # bs))))"

section \<open>Channel store\<close>

definition trigger_callback :: "string \<Rightarrow> cb_arg list \<Rightarrow> lnwallet \<Rightarrow> lnwallet" where
  "trigger_callback name args s = s\<lparr>effects := effects s @ [TriggerCallback name args]\<rparr>"

definition storage_put :: "string \<Rightarrow> stored \<Rightarrow> lnwallet \<Rightarrow> lnwallet" where
  "storage_put key v s = s\<lparr>storage := AList.update key v (storage s)\<rparr>"

definition storage_write :: "lnwallet \<Rightarrow> lnwallet" where
  "storage_write s = s\<lparr>effects := effects s @ [StorageWrite]\<rparr>"

definition save_channels :: "lnwallet \<Rightarrow> lnwallet" where
  "save_channels s =
     (let dumped = map (\<lambda>(k, r). heap s r) (channels s)
      in storage_write (storage_put ''channels'' (StoredChannels dumped) s))"

definition save_channel :: "lnwallet \<Rightarrow> nat \<Rightarrow> (error + unit) \<times> lnwallet" where
  "save_channel s chan =
     (if remote_next_point (heap s chan) = remote_current_point (heap s chan)
      then (Inl (Exception ''Tried to save channel with next_point == current_point, this should not happen''), s)
      else
        let s1 = s\<lparr>channels := AList.update (channel_id (heap s chan)) chan (channels s)\<rparr>;
            s2 = save_channels s1
        in (Inr (), trigger_callback ''channel'' [A_chan chan] s2))"


section \<open>Invoice and preimage store\<close>

text \<open>\<open>sha256\<close> (crypto) is a parameter of \<open>save_preimage\<close>; a failed \<open>assert\<close> raises.\<close>

definition save_preimage ::
  "(bytes \<Rightarrow> bytes) \<Rightarrow> lnwallet \<Rightarrow> bytes \<Rightarrow> bytes \<Rightarrow> (error + unit) \<times> lnwallet" where
  "save_preimage sha256 s hash preimage =
     (if sha256 preimage \<noteq> hash then (Inl AssertionError, s)
      else
        let s1 = s\<lparr>preimages := AList.update (bh2u hash) (bh2u preimage) (preimages s)\<rparr>;
            s2 = storage_put ''lightning_preimages'' (StoredPreimages (preimages s1)) s1
        in (Inr (), storage_write s2))"

definition get_invoice_info :: "lnwallet \<Rightarrow> bytes \<Rightarrow> error + invoice_info" where
  "get_invoice_info s hash =
     (case map_of (invoices s) (bh2u hash) of
        None \<Rightarrow> Inl (UnknownPaymentHash hash)
      | Some (a, d, st) \<Rightarrow>
          Inr \<lparr>payment_hash = hash, amount = a, direction = d, status = st\<rparr>)"

definition save_invoice_info :: "lnwallet \<Rightarrow> invoice_info \<Rightarrow> lnwallet" where
  "save_invoice_info s info =
     (let s1 = s\<lparr>invoices := AList.update (bh2u (payment_hash info))
                                (amount info, direction info, status info) (invoices s)\<rparr>;
          s2 = storage_put ''lightning_invoices2'' (StoredInvoices (invoices s1)) s1
      in storage_write s2)"

definition get_invoice_status :: "lnwallet \<Rightarrow> bytes \<Rightarrow> error + pr_status" where
  "get_invoice_status s hash =
     (case get_invoice_info s hash of
        Inr info \<Rightarrow> Inr (status info)
      | Inl (UnknownPaymentHash h) \<Rightarrow> Inr PR_UNKNOWN
      | Inl e \<Rightarrow> Inl e)"

definition set_invoice_status ::
  "lnwallet \<Rightarrow> bytes \<Rightarrow> pr_status \<Rightarrow> (error + unit) \<times> lnwallet" where
  "set_invoice_status s hash st =
     (case get_invoice_info s hash of
        Inl (UnknownPaymentHash h) \<Rightarrow> (Inr (), s)
      | Inl e \<Rightarrow> (Inl e, s)
      | Inr info0 \<Rightarrow>
          let info = info0\<lparr>status := st\<rparr>;
              s1 = save_invoice_info s info
          in if direction info = RECEIVED \<and> status info = PR_PAID
             then (Inr (), trigger_callback ''payment_received''
                             [A_wallet, A_str (bh2u hash), A_status PR_PAID] s1)
             else (Inr (), s1))"

definition delete_invoice :: "lnwallet \<Rightarrow> string \<Rightarrow> (error + unit) \<times> lnwallet" where
  "delete_invoice s payment_hash_hex =
     (case map_of (invoices s) payment_hash_hex of
        None \<Rightarrow> (Inr (), s)
      | Some v \<Rightarrow>
          let s1 = s\<lparr>invoices := AList.delete payment_hash_hex (invoices s)\<rparr>;
              s2 = storage_put ''lightning_invoices'' (StoredInvoices (invoices s1)) s1
          in (Inr (), storage_write s2))"

section \<open>Channel lifecycle: \<open>save_short_chan_id\<close>\<close>



section \<open>On-chain reaction: \<open>try_redeem\<close>\<close>

text \<open>
  \<open>remaining\<close> is the local variable of that name, unbound until one of the two branches
  assigns it. Both \<open>try\<close> blocks catch every exception of the call they guard and only
  log it, so \<open>Broadcast\<close> and \<open>AddFutureTx\<close> record the call, whatever its outcome.
\<close>

definition try_redeem ::
  "env \<Rightarrow> lnwallet \<Rightarrow> string \<Rightarrow> sweep_info \<Rightarrow> (error + unit) \<times> lnwallet" where
  "try_redeem E s prevout sweep_info =
     (case split_colon prevout of
        [prev_txid, prev_index] \<Rightarrow>
          (let (broadcast1, remaining1) =
                 (if truthy (cltv_expiry sweep_info)
                  then (let remaining = the (cltv_expiry sweep_info) - get_local_height E
                        in (\<not> remaining > 0, Some remaining))
                  else (True, None));
               (broadcast, remaining2) =
                 (if truthy (csv_delay sweep_info)
                  then (let remaining = the (csv_delay sweep_info) - get_tx_height_conf E prev_txid
                        in (if remaining > 0 then False else broadcast1, Some remaining))
                  else (broadcast1, remaining1))
           in case gen_tx sweep_info of
                None \<Rightarrow> (Inl AttributeError, s)
              | Some t \<Rightarrow>
                  (let s1 = s\<lparr>effects := effects s @ [SetLabel (tx_txid t) (si_name sweep_info)]\<rparr>
                   in if broadcast
                      then (Inr (), s1\<lparr>effects := effects s1 @ [Broadcast t]\<rparr>)
                      else (case remaining2 of
                              None \<Rightarrow> (Inr (), s1)
                            | Some remaining \<Rightarrow>
                                (Inr (), s1\<lparr>effects := effects s1 @ [AddFutureTx t remaining]\<rparr>))))
      | _ \<Rightarrow> (Inl ValueError, s))"

section \<open>Payment engine\<close>

text \<open>A leading underscore of a Python name is written \<open>u_\<close>; \<open>_(...)\<close> is the identity.\<close>

definition get_channel_by_short_id :: "lnwallet \<Rightarrow> bytes \<Rightarrow> nat option" where
  "get_channel_by_short_id s scid =
     find (\<lambda>chan. short_channel_id (heap s chan) = Some scid) (map snd (channels s))"

definition u_check_invoice :: "env \<Rightarrow> string \<Rightarrow> int option \<Rightarrow> error + lnaddr" where
  "u_check_invoice E invoice amount_sat =
     (case lndecode E invoice of
        Inl e \<Rightarrow> Inl e
      | Inr addr0 \<Rightarrow>
          if is_expired E addr0 then Inl (InvoiceError ''This invoice has expired'')
          else if truthy amount_sat \<and> COIN E = 0 then Inl ZeroDivisionError
          else
            (let addr = (if truthy amount_sat
                         then addr0\<lparr>la_amount := Some (of_int (the amount_sat) / of_int (COIN E))\<rparr>
                         else addr0)
             in if la_amount addr = None then Inl (InvoiceError ''Missing amount'')
                else if get_min_final_cltv_expiry E addr > 60 * 144
                then Inl (InvoiceError
                       (''Invoice wants us to risk locking funds for unreasonably long.''
                        @ [CHR 0x0A] @ ''min_final_cltv_expiry: ''
                        @ str_int (get_min_final_cltv_expiry E addr)))
                else Inr addr))"

text \<open>
  The inner loop of \<open>_create_route_from_invoice\<close> over
  \<open>zip(private_route_nodes, private_route_rest)\<close>, appending to \<open>route\<close>.
\<close>

fun append_private_edges ::
  "env \<Rightarrow> bytes \<Rightarrow> (bytes \<times> bytes \<times> int \<times> int \<times> int) list \<Rightarrow> route_edge list \<Rightarrow> route_edge list" where
  "append_private_edges E prev_node_id [] route = route"
| "append_private_edges E prev_node_id ((node_pubkey, scid, fb, fp, cd) # rest) route =
     (let (fb', fp', cd') =
            (case get_routing_policy_for_channel E prev_node_id scid of
               None \<Rightarrow> (fb, fp, cd)
             | Some channel_policy \<Rightarrow>
                 (fee_base_msat channel_policy, fee_proportional_millionths channel_policy,
                  cltv_expiry_delta channel_policy))
      in append_private_edges E node_pubkey rest
           (route @ [RouteEdge node_pubkey scid fb' fp' cd']))"

text \<open>
  The body of the loop over the hints up to the sanity test: the route built for one
  private route, \<open>None\<close> where the loop says \<open>continue\<close> (an empty or too long hint, no
  path to the border node).
\<close>

definition private_route_candidate ::
  "env \<Rightarrow> channel list \<Rightarrow> bytes \<Rightarrow> int \<Rightarrow> hint_edge list \<Rightarrow> route_edge list option" where
  "private_route_candidate E chans invoice_pubkey amount_msat private_route =
     (case private_route of
        [] \<Rightarrow> None
      | edge0 # edges \<Rightarrow>
          if length private_route > NUM_MAX_EDGES_IN_PAYMENT_PATH E then None
          else
            (let border_node_pubkey = fst edge0 in
             case find_path_for_payment E (node_keypair_pubkey E) border_node_pubkey amount_msat chans of
               None \<Rightarrow> None
             | Some path \<Rightarrow>
                 if path = [] then None
                 else
                   (let route = create_route_from_path E path (node_keypair_pubkey E);
                        private_route_nodes = map fst edges @ [invoice_pubkey];
                        private_route_rest = map snd private_route
                    in Some (append_private_edges E border_node_pubkey
                               (zip private_route_nodes private_route_rest) route))))"

fun private_route_loop ::
  "env \<Rightarrow> channel list \<Rightarrow> bytes \<Rightarrow> int \<Rightarrow> int \<Rightarrow> hint_edge list list \<Rightarrow> route_edge list option" where
  "private_route_loop E chans invoice_pubkey amount_msat min_cltv [] = None"
| "private_route_loop E chans invoice_pubkey amount_msat min_cltv (private_route # r_tags) =
     (case private_route_candidate E chans invoice_pubkey amount_msat private_route of
        None \<Rightarrow> private_route_loop E chans invoice_pubkey amount_msat min_cltv r_tags
      | Some route \<Rightarrow>
          if \<not> is_route_sane_to_use E route amount_msat min_cltv
          then private_route_loop E chans invoice_pubkey amount_msat min_cltv r_tags
          else Some route)"

fun r_tags_of :: "tag list \<Rightarrow> hint_edge list list" where
  "r_tags_of [] = []"
| "r_tags_of (Tag_r private_route # tags) = private_route # r_tags_of tags"
| "r_tags_of (t # tags) = r_tags_of tags"

definition u_create_route_from_invoice ::
  "env \<Rightarrow> lnwallet \<Rightarrow> lnaddr \<Rightarrow> error + route_edge list" where
  "u_create_route_from_invoice E s decoded_invoice =
     (case la_amount decoded_invoice of
        None \<Rightarrow> Inl TypeError
      | Some a \<Rightarrow>
          (let amount_msat = py_int (a * of_int (COIN E) * 1000);
               invoice_pubkey = la_pubkey decoded_invoice;
               r_tags = shuffle E (r_tags_of (la_tags decoded_invoice));
               chans = map (\<lambda>(k, r). heap s r) (channels s);
               min_cltv = get_min_final_cltv_expiry E decoded_invoice
           in case private_route_loop E chans invoice_pubkey amount_msat min_cltv r_tags of
                Some route \<Rightarrow> Inr route
              | None \<Rightarrow>
                  (case find_path_for_payment E (node_keypair_pubkey E) invoice_pubkey amount_msat chans of
                     None \<Rightarrow> Inl (PaymentFailure ''No path found'')
                   | Some path \<Rightarrow>
                       if path = [] then Inl (PaymentFailure ''No path found'')
                       else
                         (let route = create_route_from_path E path (node_keypair_pubkey E)
                          in if \<not> is_route_sane_to_use E route amount_msat min_cltv
                             then Inl (PaymentFailure ''No path found'')
                             else Inr route))))"

text \<open>
  The messages of the two \<open>Exception\<close>s below end, in the source, with the formatted
  short channel id; that suffix is left out.
\<close>

definition u_pay_to_route ::
  "env \<Rightarrow> lnwallet \<Rightarrow> route_edge list \<Rightarrow> lnaddr \<Rightarrow> string \<Rightarrow> (error + bool) \<times> lnwallet" where
  "u_pay_to_route E s route addr invoice =
     (case route of
        [] \<Rightarrow> (Inl IndexError, s)
      | edge0 # edges \<Rightarrow>
          (case get_channel_by_short_id s (edge_short_channel_id edge0) of
             None \<Rightarrow> (Inl (Exception ''PathFinder returned path with short_channel_id that is not in channel list''), s)
           | Some chan \<Rightarrow>
               (case set_invoice_status s (paymenthash addr) PR_INFLIGHT of
                  (Inl e, s1) \<Rightarrow> (Inl e, s1)
                | (Inr u, s1) \<Rightarrow>
                    if edge_node_id edge0 \<notin> set (peers s1) then (Inl KeyError, s1)
                    else
                      (case la_amount addr of
                         None \<Rightarrow> (Inl TypeError, s1)
                       | Some a \<Rightarrow>
                           (case peer_pay E route (heap s1 chan)
                                   (py_int (a * of_int (COIN E) * 1000)) (paymenthash addr)
                                   (get_min_final_cltv_expiry E addr) of
                              Inl e \<Rightarrow> (Inl e, s1)
                            | Inr htlc_id \<Rightarrow>
                                (let s2 = trigger_callback ''htlc_added''
                                            [A_htlc htlc_id, A_lnaddr addr, A_direction SENT] s1;
                                     success = payment_result E (edge_short_channel_id edge0) htlc_id
                                 in case set_invoice_status s2 (paymenthash addr)
                                           (if success then PR_PAID else PR_UNPAID) of
                                      (Inl e, s3) \<Rightarrow> (Inl e, s3)
                                    | (Inr u, s3) \<Rightarrow> (Inr success, s3)))))))"

text \<open>The loop \<open>for i in range(attempts)\<close> of \<open>_pay\<close>, over the list of the values of \<open>i\<close>.\<close>

fun pay_attempts ::
  "env \<Rightarrow> lnaddr \<Rightarrow> string \<Rightarrow> string \<Rightarrow> nat list \<Rightarrow> lnwallet \<Rightarrow> (error + bool) \<times> lnwallet" where
  "pay_attempts E lnaddr invoice key [] s = (Inr False, s)"
| "pay_attempts E lnaddr invoice key (i # rest) s =
     (case u_create_route_from_invoice E s lnaddr of
        Inl e \<Rightarrow> (Inl e, s)
      | Inr route \<Rightarrow>
          (case route of
             [] \<Rightarrow> (Inl IndexError, s)
           | edge0 # edges \<Rightarrow>
               if get_channel_by_short_id s (edge_short_channel_id edge0) = None
               then (Inl (Exception ''Got route with unknown first channel''), s)
               else
                 (let s1 = trigger_callback ''payment_status''
                             [A_str key, A_str ''progress'', A_int (int i)] s
                  in case u_pay_to_route E s1 route lnaddr invoice of
                       (Inl e, s2) \<Rightarrow> (Inl e, s2)
                     | (Inr success, s2) \<Rightarrow>
                         if success then (Inr True, s2)
                         else pay_attempts E lnaddr invoice key rest s2)))"

definition u_pay ::
  "env \<Rightarrow> lnwallet \<Rightarrow> string \<Rightarrow> int option \<Rightarrow> int \<Rightarrow> (error + bool) \<times> lnwallet" where
  "u_pay E s invoice amount_sat attempts =
     (case lndecode E invoice of
        Inl e \<Rightarrow> (Inl e, s)
      | Inr lnaddr \<Rightarrow>
          (let key = bh2u (paymenthash lnaddr);
               amount_or_none =
                 (case la_amount lnaddr of
                    None \<Rightarrow> None
                  | Some a \<Rightarrow> if a = 0 then None else Some (py_int (a * of_int (COIN E))))
           in case get_invoice_status s (paymenthash lnaddr) of
                Inl e \<Rightarrow> (Inl e, s)
              | Inr st \<Rightarrow>
                  if st = PR_PAID
                  then (Inl (PaymentFailure ''This invoice has been paid already''), s)
                  else
                    (let info = \<lparr>payment_hash = paymenthash lnaddr, amount = amount_or_none,
                                 direction = SENT, status = PR_UNPAID\<rparr>;
                         s1 = save_invoice_info s info
                     in case u_check_invoice E invoice amount_sat of
                          Inl e \<Rightarrow> (Inl e, s1)
                        | Inr addr \<Rightarrow>
                            (let s2 = s1\<lparr>effects := effects s1
                                          @ [SetLabel key (la_description lnaddr)]\<rparr>
                             in pay_attempts E lnaddr invoice key [0..<nat attempts] s2))))"

section \<open>Receive flow: routing hints\<close>

text \<open>The loop of \<open>_calc_routing_hints_for_invoice\<close> over the channels, appending to \<open>routing_hints\<close>.\<close>

fun routing_hints_loop ::
  "env \<Rightarrow> int option \<Rightarrow> channel list \<Rightarrow> tag list \<Rightarrow> error + tag list" where
  "routing_hints_loop E amount_sat [] routing_hints = Inr routing_hints"
| "routing_hints_loop E amount_sat (chan # chans) routing_hints =
     (if chan_state chan \<noteq> ''OPEN'' then routing_hints_loop E amount_sat chans routing_hints
      else if truthy amount_sat \<and> balance_remote chan div 1000 < the amount_sat
      then routing_hints_loop E amount_sat chans routing_hints
      else
        (case short_channel_id chan of
           None \<Rightarrow> Inl AssertionError
         | Some chan_id \<Rightarrow>
             (let (fb, fp, cd) =
                    (case get_channel_info E chan_id of
                       None \<Rightarrow> (0, 0, 1)
                     | Some channel_info \<Rightarrow>
                         (case get_policy_for_node E (ci_short_channel_id channel_info)
                                 (node_id chan) of
                            None \<Rightarrow> (0, 0, 1)
                          | Some pol \<Rightarrow>
                              (fee_base_msat pol, fee_proportional_millionths pol,
                               cltv_expiry_delta pol)))
              in routing_hints_loop E amount_sat chans
                   (routing_hints @ [Tag_r [(node_id chan, chan_id, fb, fp, cd)]]))))"

definition u_calc_routing_hints_for_invoice ::
  "env \<Rightarrow> lnwallet \<Rightarrow> int option \<Rightarrow> error + tag list" where
  "u_calc_routing_hints_for_invoice E s amount_sat =
     routing_hints_loop E amount_sat (map (\<lambda>(k, r). heap s r) (channels s)) []"

section \<open>Notions used to state the properties\<close>

text \<open>
  The integrity of the preimage dictionary: every entry is the hex form of a pair
  \<open>(hash, preimage)\<close> with \<open>sha256 preimage = hash\<close>. A worker is reachable when it
  starts with an empty preimage dictionary and is then changed by \<open>save_preimage\<close>, the
  only method of the worker that writes the dictionary, or by anything that leaves the
  dictionary alone.
\<close>

definition preimages_ok :: "(bytes \<Rightarrow> bytes) \<Rightarrow> (string \<times> string) list \<Rightarrow> bool" where
  "preimages_ok sha256 ps =
     (\<forall>(k, v) \<in> set ps. \<exists>h p. bfh k = Some h \<and> bfh v = Some p \<and> sha256 p = h)"

inductive preimage_reachable :: "(bytes \<Rightarrow> bytes) \<Rightarrow> lnwallet \<Rightarrow> bool"
  for sha256 :: "bytes \<Rightarrow> bytes" where
  start: "preimages s = [] \<Longrightarrow> preimage_reachable sha256 s"
| save: "preimage_reachable sha256 s \<Longrightarrow>
         preimage_reachable sha256 (snd (save_preimage sha256 s h p))"
| other: "preimage_reachable sha256 s \<Longrightarrow> preimages s' = preimages s \<Longrightarrow>
          preimage_reachable sha256 s'"

definition payment_received_fired :: "bytes \<Rightarrow> lnwallet \<Rightarrow> lnwallet \<Rightarrow> bool" where
  "payment_received_fired h s s' =
     (TriggerCallback ''payment_received'' [A_wallet, A_str (bh2u h), A_status PR_PAID]
        \<in> set (drop (length (effects s)) (effects s')))"

text \<open>
  The routing hints as the specification words them: a channel is eligible when it is
  \<open>OPEN\<close> and, when an amount is given, its remote balance divided by 1000 is at least
  the amount; its hint carries the policy stored in the channel database, or \<open>(0, 0, 1)\<close>.
\<close>

definition hint_eligible :: "int option \<Rightarrow> channel \<Rightarrow> bool" where
  "hint_eligible amount_sat chan =
     (chan_state chan = ''OPEN'' \<and>
      (case amount_sat of None \<Rightarrow> True | Some a \<Rightarrow> a \<le> balance_remote chan div 1000))"

definition stored_policy :: "env \<Rightarrow> channel \<Rightarrow> policy option" where
  "stored_policy E chan =
     (case short_channel_id chan of
        None \<Rightarrow> None
      | Some scid \<Rightarrow>
          (case get_channel_info E scid of
             None \<Rightarrow> None
           | Some channel_info \<Rightarrow>
               get_policy_for_node E (ci_short_channel_id channel_info) (node_id chan)))"

definition routing_hint :: "env \<Rightarrow> channel \<Rightarrow> tag" where
  "routing_hint E chan =
     Tag_r [(node_id chan, the (short_channel_id chan),
             (case stored_policy E chan of
                None \<Rightarrow> (0, 0, 1)
              | Some pol \<Rightarrow> (fee_base_msat pol, fee_proportional_millionths pol,
                             cltv_expiry_delta pol)))]"


text \<open>
  Neither a private-hint route nor a direct route to the payee passes the sanity check:
  every hint of the invoice yields no route or a route that is not sane, and so does the
  direct path to the payee.
\<close>

definition no_sane_route :: "env \<Rightarrow> lnwallet \<Rightarrow> lnaddr \<Rightarrow> int \<Rightarrow> bool" where
  "no_sane_route E s decoded_invoice amount_msat =
     (let chans = map (\<lambda>(k, r). heap s r) (channels s);
          min_cltv = get_min_final_cltv_expiry E decoded_invoice
      in (\<forall>private_route \<in> set (r_tags_of (la_tags decoded_invoice)).
            case private_route_candidate E chans (la_pubkey decoded_invoice) amount_msat
                   private_route of
              None \<Rightarrow> True
            | Some route \<Rightarrow> \<not> is_route_sane_to_use E route amount_msat min_cltv)
         \<and> (case find_path_for_payment E (node_keypair_pubkey E) (la_pubkey decoded_invoice)
                    amount_msat chans of
               None \<Rightarrow> True
             | Some path \<Rightarrow>
                 path = [] \<or>
                 \<not> is_route_sane_to_use E (create_route_from_path E path (node_keypair_pubkey E))
                      amount_msat min_cltv))"

section \<open>Example values\<close>

definition chan_a :: channel where
  "chan_a = \<lparr>channel_id = [1], node_id = [2], funding_txid = ''aa'', funding_output_index = 0,
     short_channel_id = None, short_channel_id_predicted = None, chan_state = ''OPENING'',
     funding_txn_minimum_depth = 3, remote_next_point = Some [7], remote_current_point = Some [7],
     balance_remote = 0\<rparr>"

definition chan_b :: channel where
  "chan_b = \<lparr>channel_id = [4], node_id = [5], funding_txid = ''bb'', funding_output_index = 1,
     short_channel_id = Some [6], short_channel_id_predicted = Some [6], chan_state = ''OPEN'',
     funding_txn_minimum_depth = 3, remote_next_point = Some [8], remote_current_point = None,
     balance_remote = 200000000\<rparr>"

definition chan_c :: channel where
  "chan_c = \<lparr>channel_id = [10], node_id = [11], funding_txid = ''cc'', funding_output_index = 0,
     short_channel_id = None, short_channel_id_predicted = None, chan_state = ''OPENING'',
     funding_txn_minimum_depth = 3, remote_next_point = Some [8], remote_current_point = None,
     balance_remote = 200000000\<rparr>"

definition wallet0 :: lnwallet where
  "wallet0 = \<lparr>heap = (\<lambda>r. chan_a), channels = [],
     invoices = [(''ab'', (Some 100000, RECEIVED, PR_PAID)),
                 (''0c'', (Some 100000, RECEIVED, PR_UNPAID))],
     preimages = [], peers = [], storage = [], effects = []\<rparr>"

definition wallet1 :: lnwallet where
  "wallet1 = \<lparr>heap = (\<lambda>r. if r = 1 then chan_b else chan_c),
     channels = [([4], 1), ([10], 2)],
     invoices = [(''ab'', (Some 100000, SENT, PR_PAID))],
     preimages = [], peers = [[5]], storage = [], effects = []\<rparr>"

definition addr_a :: lnaddr where
  "addr_a = \<lparr>paymenthash = [171], la_amount = Some (1 / 1000), la_pubkey = [5],
     la_tags = [Tag_d ''coffee'', Tag_c 9], la_description = ''coffee''\<rparr>"

definition addr_b :: lnaddr where
  "addr_b = \<lparr>paymenthash = [12], la_amount = None, la_pubkey = [5],
     la_tags = [Tag_d ''tea''], la_description = ''tea''\<rparr>"

definition env0 :: env where
  "env0 = \<lparr>COIN = 100000000, NUM_MAX_EDGES_IN_PAYMENT_PATH = 20,
     lndecode = (\<lambda>i. if i = ''lnltc1a'' then Inr addr_a
                      else if i = ''lnltc1b'' then Inr addr_b else Inl ValueError),
     is_expired = (\<lambda>a. False),
     get_min_final_cltv_expiry = (\<lambda>a. 9),
     is_route_sane_to_use = (\<lambda>route amount_msat min_cltv. length route \<le> 20),
     from_components = (\<lambda>h p i. [word_of_int h, word_of_int p, word_of_int i]),
     get_tx_height_conf = (\<lambda>t. if t = ''cc'' then 5 else 1),
     get_txpos = (\<lambda>t. (100, 7)),
     get_channel_info = (\<lambda>scid. None),
     get_policy_for_node = (\<lambda>scid n. None),
     get_routing_policy_for_channel = (\<lambda>n scid. None),
     find_path_for_payment = (\<lambda>src dst amount_msat chans.
        if dst = [5] \<and> chans \<noteq> [] then Some [([5], [6])] else None),
     create_route_from_path = (\<lambda>path src. map (\<lambda>(n, scid). RouteEdge n scid 0 0 1) path),
     shuffle = (\<lambda>r_tags. rev r_tags),
     node_keypair_pubkey = [9],
     get_local_height = 0,
     peer_pay = (\<lambda>route chan amount_msat h min_cltv. Inr 0),
     payment_result = (\<lambda>scid htlc_id. True)\<rparr>"



definition addr_c :: lnaddr where
  "addr_c = \<lparr>paymenthash = [12], la_amount = Some (1 / 1000), la_pubkey = [77],
     la_tags = [Tag_d ''hinted'', Tag_r [([5], [33], 1, 2, 3)]], la_description = ''hinted''\<rparr>"

definition sweep_dust :: sweep_info where
  "sweep_dust = \<lparr>si_name = ''our_ctx_to_local'', cltv_expiry = None, csv_delay = Some 144,
     gen_tx = None\<rparr>"




section \<open>Verified properties\<close>

subsection \<open>Hex encoding\<close>

lemma hex_val_digit: "\<forall>n<16. hex_val ''0123456789abcdef'' (hex_digit n) = Some n"
  by (simp add: hex_digit_def numeral_eq_Suc All_less_Suc)

lemma bfh_bh2u: "bfh (bh2u x) = Some x"
proof (induction x)
  case Nil
  show ?case by (simp add: bh2u_def)
next
  case (Cons w ws)
  have lt: "unat w < 256" using unsigned_less [of w, where ?'a = nat] by simp
  then have hi: "unat w div 16 < 16" and lo: "unat w mod 16 < 16" by simp_all
  have eq: "word_of_nat (16 * (unat w div 16) + unat w mod 16) = w" by simp
  have "bh2u (w # ws) = hex_digit (unat w div 16) # hex_digit (unat w mod 16) # bh2u ws"
    by (simp add: bh2u_def hex_byte_def)
  then show ?case
    using Cons.IH hex_val_digit hi lo eq by simp
qed

lemma preimages_ok_update:
  "preimages_ok f ps \<Longrightarrow> f p = h \<Longrightarrow> preimages_ok f (AList.update (bh2u h) (bh2u p) ps)"
  by (induction ps) (auto simp: preimages_ok_def bfh_bh2u)

lemma save_preimage_preimages:
  "preimages (snd (save_preimage f s h p)) =
     (if f p = h then AList.update (bh2u h) (bh2u p) (preimages s) else preimages s)"
  by (simp add: save_preimage_def storage_put_def storage_write_def Let_def)

lemma preimage_reachable_ok: "preimage_reachable f s \<Longrightarrow> preimages_ok f (preimages s)"
proof (induction rule: preimage_reachable.induct)
  case (start s)
  then show ?case by (simp add: preimages_ok_def)
next
  case (save s h p)
  then show ?case by (simp add: save_preimage_preimages preimages_ok_update)
next
  case (other s s')
  then show ?case by simp
qed

subsection \<open>Preimage store\<close>

text \<open>
  Claim C3. \<open>save_preimage(payment_hash, preimage)\<close> fails (the assertion raises, and
  nothing is changed) unless \<open>sha256(preimage) = payment_hash\<close>; so every pair
  \<open>(hash, preimage)\<close> in the preimage store of a reachable worker decodes from hex and
  satisfies \<open>sha256(preimage) = hash\<close>.
\<close>

theorem save_preimage_integrity:
  "(sha256 p \<noteq> h \<longrightarrow> save_preimage sha256 s h p = (Inl AssertionError, s)) \<and>
   (preimage_reachable sha256 s \<longrightarrow>
      (\<forall>(k, v) \<in> set (preimages s).
         \<exists>hh pp. bfh k = Some hh \<and> bfh v = Some pp \<and> sha256 pp = hh))"
  using preimage_reachable_ok [of sha256 s]
  by (simp add: save_preimage_def preimages_ok_def)

theorem save_preimage_integrity_witness:
  "rev [1, 2] \<noteq> [1, 2 :: 8 word] \<and>
   save_preimage rev wallet0 [1, 2] [1, 2] = (Inl AssertionError, wallet0) \<and>
   preimage_reachable rev (snd (save_preimage rev wallet0 [2, 1] [1, 2])) \<and>
   preimages (snd (save_preimage rev wallet0 [2, 1] [1, 2])) = [(''0201'', ''0102'')] \<and>
   preimages_ok rev (preimages (snd (save_preimage rev wallet0 [2, 1] [1, 2])))"
proof -
  have r: "preimage_reachable rev (snd (save_preimage rev wallet0 [2, 1] [1, 2]))"
    by (rule preimage_reachable.save, rule preimage_reachable.start) (simp add: wallet0_def)
  have p: "preimages (snd (save_preimage rev wallet0 [2, 1] [1, 2])) = [(''0201'', ''0102'')]"
    by (simp add: save_preimage_def wallet0_def storage_put_def storage_write_def bh2u_def
        hex_byte_def hex_digit_def)
  show ?thesis
    using save_preimage_integrity [of rev "[1, 2]" "[1, 2]" wallet0]
      save_preimage_integrity [of rev "[1, 2]" "[2, 1]" "snd (save_preimage rev wallet0 [2, 1] [1, 2])"]
      r p
    by (simp add: preimages_ok_def)
qed

subsection \<open>Channel store\<close>

text \<open>
  Claim C4. For a channel whose remote-side \<open>next_per_commitment_point\<close> equals its
  \<open>current_per_commitment_point\<close>, \<open>save_channel\<close> raises an exception, and the worker is
  left as it was: the \<open>channels\<close> dictionary and the persisted channel list are unchanged.
\<close>

theorem save_channel_stale_point:
  "remote_next_point (heap s chan) = remote_current_point (heap s chan) \<Longrightarrow>
   save_channel s chan =
     (Inl (Exception ''Tried to save channel with next_point == current_point, this should not happen''), s)
   \<and> channels (snd (save_channel s chan)) = channels s
   \<and> storage (snd (save_channel s chan)) = storage s"
  by (simp add: save_channel_def)

theorem save_channel_stale_point_witness:
  "remote_next_point (heap wallet0 0) = remote_current_point (heap wallet0 0) \<and>
   fst (save_channel wallet0 0) =
     Inl (Exception ''Tried to save channel with next_point == current_point, this should not happen'') \<and>
   snd (save_channel wallet0 0) = wallet0"
proof -
  have h: "remote_next_point (heap wallet0 0) = remote_current_point (heap wallet0 0)"
    by (simp add: wallet0_def chan_a_def)
  show ?thesis using h save_channel_stale_point [OF h] by simp
qed

subsection \<open>Invoice store\<close>

lemma save_invoice_info_effects:
  "effects (save_invoice_info s info) = effects s @ [StorageWrite]"
  by (simp add: save_invoice_info_def storage_put_def storage_write_def Let_def)

text \<open>
  Claim C6, as amended. \<open>set_invoice_status(payment_hash, status)\<close> fires the
  \<open>payment_received\<close> notification if and only if the invoice exists in the store, its
  direction is \<open>RECEIVED\<close> and the status being set is \<open>PR_PAID\<close>, whatever the status was
  before the call; for a payment hash with no stored invoice the call returns normally
  and changes nothing.
\<close>

theorem set_invoice_status_notification:
  "payment_received_fired h s (snd (set_invoice_status s h st)) =
     (\<exists>a d old. map_of (invoices s) (bh2u h) = Some (a, d, old) \<and> d = RECEIVED \<and> st = PR_PAID)
   \<and> (map_of (invoices s) (bh2u h) = None \<longrightarrow> set_invoice_status s h st = (Inr (), s))"
proof (cases "map_of (invoices s) (bh2u h)")
  case None
  then show ?thesis
    by (simp add: set_invoice_status_def get_invoice_info_def payment_received_fired_def)
next
  case (Some t)
  obtain a d old where t: "t = (a, d, old)" by (cases t)
  show ?thesis
    using Some t
    by (simp add: set_invoice_status_def get_invoice_info_def payment_received_fired_def
        trigger_callback_def save_invoice_info_effects Let_def)
qed

theorem set_invoice_status_notification_witness:
  "map_of (invoices wallet0) (bh2u [205]) = None \<and>
   set_invoice_status wallet0 [205] PR_PAID = (Inr (), wallet0) \<and>
   \<not> payment_received_fired [205] wallet0 (snd (set_invoice_status wallet0 [205] PR_PAID)) \<and>
   map_of (invoices wallet0) (bh2u [12]) = Some (Some 100000, RECEIVED, PR_UNPAID) \<and>
   payment_received_fired [12] wallet0 (snd (set_invoice_status wallet0 [12] PR_PAID)) \<and>
   \<not> payment_received_fired [12] wallet0 (snd (set_invoice_status wallet0 [12] PR_INFLIGHT))"
proof -
  have n: "map_of (invoices wallet0) (bh2u [205]) = None"
    by (simp add: wallet0_def bh2u_def hex_byte_def hex_digit_def)
  have m: "map_of (invoices wallet0) (bh2u [12]) = Some (Some 100000, RECEIVED, PR_UNPAID)"
    by (simp add: wallet0_def bh2u_def hex_byte_def hex_digit_def)
  show ?thesis
    using n m set_invoice_status_notification [of "[205]" wallet0 PR_PAID]
      set_invoice_status_notification [of "[12]" wallet0 PR_PAID]
      set_invoice_status_notification [of "[12]" wallet0 PR_INFLIGHT]
    by (auto simp: payment_received_fired_def)
qed

text \<open>
  Claim C6 as stated asks that the invoice \<^emph>\<open>newly\<close> became paid. An invoice that is
  already \<open>PR_PAID\<close> and is set to \<open>PR_PAID\<close> again fires the notification again.
\<close>

theorem set_invoice_status_refires_counterexample:
  "map_of (invoices wallet0) (bh2u [171]) = Some (Some 100000, RECEIVED, PR_PAID) \<and>
   payment_received_fired [171] wallet0 (snd (set_invoice_status wallet0 [171] PR_PAID))"
  by (simp add: wallet0_def bh2u_def hex_byte_def hex_digit_def set_invoice_status_def
      get_invoice_info_def payment_received_fired_def trigger_callback_def
      save_invoice_info_effects Let_def)

text \<open>
  Claim C10. For a hex payment hash that is not a key of the \<open>invoices\<close> dictionary,
  \<open>delete_invoice\<close> returns without raising and changes nothing: the dictionary is
  unchanged and the storage is neither given a value nor written.
\<close>

theorem delete_invoice_missing_key:
  "map_of (invoices s) payment_hash_hex = None \<Longrightarrow>
   delete_invoice s payment_hash_hex = (Inr (), s)"
  by (simp add: delete_invoice_def)

theorem delete_invoice_missing_key_witness:
  "map_of (invoices wallet0) ''cd'' = None \<and> delete_invoice wallet0 ''cd'' = (Inr (), wallet0)"
proof -
  have n: "map_of (invoices wallet0) ''cd'' = None" by (simp add: wallet0_def)
  show ?thesis using n delete_invoice_missing_key [OF n] by simp
qed

subsection \<open>Invoice validation\<close>

text \<open>
  Claim C9. For a decodable invoice, \<open>_check_invoice\<close> raises \<open>InvoiceError\<close> if and only
  if the invoice is expired, or its amount is missing after a caller-supplied
  \<open>amount_sat\<close>, when given (\<open>if amount_sat:\<close>), has been substituted for the invoice
  amount, or \<open>min_final_cltv_expiry\<close> exceeds \<open>60 * 144\<close>; otherwise it returns the
  decoded address (carrying the substituted amount).
\<close>

theorem check_invoice_errors:
  assumes "lndecode E invoice = Inr addr0" and "COIN E \<noteq> 0"
  shows "let addr = (if truthy amount_sat
                     then addr0\<lparr>la_amount := Some (of_int (the amount_sat) / of_int (COIN E))\<rparr>
                     else addr0)
         in ((\<exists>msg. u_check_invoice E invoice amount_sat = Inl (InvoiceError msg)) \<longleftrightarrow>
               (is_expired E addr0 \<or> la_amount addr = None
                \<or> get_min_final_cltv_expiry E addr > 60 * 144))
            \<and> (\<not> (is_expired E addr0 \<or> la_amount addr = None
                    \<or> get_min_final_cltv_expiry E addr > 60 * 144) \<longrightarrow>
                 u_check_invoice E invoice amount_sat = Inr addr)"
  using assms by (auto simp: u_check_invoice_def Let_def)

theorem check_invoice_errors_witness:
  "lndecode env0 ''lnltc1b'' = Inr addr_b \<and> COIN env0 \<noteq> 0 \<and>
   u_check_invoice env0 ''lnltc1b'' None = Inl (InvoiceError ''Missing amount'') \<and>
   u_check_invoice env0 ''lnltc1b'' (Some 100000) = Inr (addr_b\<lparr>la_amount := Some (1 / 1000)\<rparr>)"
proof -
  have d: "lndecode env0 ''lnltc1b'' = Inr addr_b" and c: "COIN env0 \<noteq> 0"
    by (simp_all add: env0_def)
  have e: "\<not> is_expired env0 addr_b" and m: "get_min_final_cltv_expiry env0 x = 9" for x
    by (simp_all add: env0_def)
  have q: "(of_int 100000 :: rat) / of_int (COIN env0) = 1 / 1000"
    by (simp add: env0_def)
  have n: "la_amount addr_b = None" by (simp add: addr_b_def)
  have "u_check_invoice env0 ''lnltc1b'' (Some 100000) = Inr (addr_b\<lparr>la_amount := Some (1 / 1000)\<rparr>)"
    using check_invoice_errors [OF d c, of "Some 100000"] e m q
    by (simp add: truthy_def Let_def)
  moreover have "u_check_invoice env0 ''lnltc1b'' None = Inl (InvoiceError ''Missing amount'')"
    using d e n by (simp add: u_check_invoice_def truthy_def)
  ultimately show ?thesis using d c by simp
qed

subsection \<open>Routing hints\<close>

lemma routing_hints_loop_eq:
  assumes "\<forall>c \<in> set chans. chan_state c = ''OPEN'' \<longrightarrow> short_channel_id c \<noteq> None"
    and "\<forall>c \<in> set chans. 0 \<le> balance_remote c"
  shows "routing_hints_loop E amount_sat chans acc =
           Inr (acc @ map (routing_hint E) (filter (hint_eligible amount_sat) chans))"
  using assms
proof (induction chans arbitrary: acc)
  case Nil
  show ?case by simp
next
  case (Cons c cs)
  have ih: "routing_hints_loop E amount_sat cs acc' =
           Inr (acc' @ map (routing_hint E) (filter (hint_eligible amount_sat) cs))" for acc'
    using Cons by simp
  have bal: "0 \<le> balance_remote c div 1000" using Cons.prems(2) by (simp add: pos_imp_zdiv_nonneg_iff)
  have skip: "truthy amount_sat \<and> balance_remote c div 1000 < the amount_sat \<longleftrightarrow>
        \<not> (case amount_sat of None \<Rightarrow> True | Some a \<Rightarrow> a \<le> balance_remote c div 1000)"
    using bal by (cases amount_sat) (auto simp: truthy_def)
  have elig: "hint_eligible amount_sat c \<longleftrightarrow>
        chan_state c = ''OPEN'' \<and> \<not> (truthy amount_sat \<and> balance_remote c div 1000 < the amount_sat)"
    using skip by (simp add: hint_eligible_def)
  show ?case
  proof (cases "hint_eligible amount_sat c")
    case False
    then have "routing_hints_loop E amount_sat (c # cs) acc = routing_hints_loop E amount_sat cs acc"
      using elig by auto
    then show ?thesis using ih False by simp
  next
    case True
    then obtain scid where scid: "short_channel_id c = Some scid"
      using Cons.prems(1) by (auto simp: hint_eligible_def)
    have "routing_hints_loop E amount_sat (c # cs) acc =
          routing_hints_loop E amount_sat cs (acc @ [routing_hint E c])"
      using True elig scid
      by (auto simp: routing_hint_def stored_policy_def split: option.splits)
    then show ?thesis using ih True by simp
  qed
qed

text \<open>
  Claim C8. \<open>_calc_routing_hints_for_invoice(amount_sat)\<close> returns exactly one
  \<open>('r', [(remote_node_id, scid, fee_base_msat, fee_prop_ppm, cltv_delta)])\<close> hint for
  each channel that is \<open>OPEN\<close> and, when \<open>amount_sat\<close> is given, has a remote balance
  divided by 1000 of at least \<open>amount_sat\<close>, in the order of the channels, and no hint
  for any other channel; where the channel database stores no policy for the channel,
  the fee and expiry fields are \<open>(0, 0, 1)\<close>. Channels are as the worker keeps them: an
  \<open>OPEN\<close> channel has a short channel id, and balances are not negative.
\<close>

theorem calc_routing_hints:
  assumes "\<forall>(k, r) \<in> set (channels s).
             chan_state (heap s r) = ''OPEN'' \<longrightarrow> short_channel_id (heap s r) \<noteq> None"
    and "\<forall>(k, r) \<in> set (channels s). 0 \<le> balance_remote (heap s r)"
  shows "u_calc_routing_hints_for_invoice E s amount_sat =
           Inr (map (routing_hint E)
                  (filter (hint_eligible amount_sat) (map (\<lambda>(k, r). heap s r) (channels s))))
         \<and> (\<forall>chan. stored_policy E chan = None \<longrightarrow>
               routing_hint E chan =
                 Tag_r [(node_id chan, the (short_channel_id chan), 0, 0, 1)])"
proof -
  have "routing_hints_loop E amount_sat (map (\<lambda>(k, r). heap s r) (channels s)) [] =
        Inr ([] @ map (routing_hint E)
                  (filter (hint_eligible amount_sat) (map (\<lambda>(k, r). heap s r) (channels s))))"
    using assms by (intro routing_hints_loop_eq) auto
  then show ?thesis
    by (simp add: u_calc_routing_hints_for_invoice_def routing_hint_def)
qed

theorem calc_routing_hints_witness:
  "list_all (\<lambda>(k, r). chan_state (heap wallet1 r) = ''OPEN'' \<longrightarrow>
                         short_channel_id (heap wallet1 r) \<noteq> None) (channels wallet1) \<and>
   list_all (\<lambda>(k, r). 0 \<le> balance_remote (heap wallet1 r)) (channels wallet1) \<and>
   u_calc_routing_hints_for_invoice env0 wallet1 (Some 100000) = Inr [Tag_r [([5], [6], 0, 0, 1)]]"
proof -
  have a: "\<forall>(k, r) \<in> set (channels wallet1).
       chan_state (heap wallet1 r) = ''OPEN'' \<longrightarrow> short_channel_id (heap wallet1 r) \<noteq> None"
    by (simp add: wallet1_def chan_b_def chan_c_def)
  have b: "\<forall>(k, r) \<in> set (channels wallet1). 0 \<le> balance_remote (heap wallet1 r)"
    by (simp add: wallet1_def chan_b_def chan_c_def)
  have c: "stored_policy env0 chan_b = None"
    by (simp add: stored_policy_def env0_def chan_b_def)
  have "u_calc_routing_hints_for_invoice env0 wallet1 (Some 100000) = Inr [Tag_r [([5], [6], 0, 0, 1)]]"
    using calc_routing_hints [OF a b, of env0 "Some 100000"] c
    by (simp add: wallet1_def hint_eligible_def chan_b_def chan_c_def)
  then show ?thesis using a b by (simp add: list_all_iff)
qed

subsection \<open>Channel lifecycle\<close>













subsection \<open>Payment engine\<close>

text \<open>
  Claim C2. For an invoice whose stored status is already \<open>PR_PAID\<close>, \<open>_pay\<close> raises
  \<open>PaymentFailure\<close> "This invoice has been paid already" and leaves the worker as it was:
  no \<open>InvoiceInfo\<close> is written for the payment hash and no payment is attempted.
\<close>

theorem pay_rejects_paid_invoice:
  assumes "lndecode E invoice = Inr lnaddr"
    and "map_of (invoices s) (bh2u (paymenthash lnaddr)) = Some (a, d, PR_PAID)"
  shows "u_pay E s invoice amount_sat attempts =
           (Inl (PaymentFailure ''This invoice has been paid already''), s)"
  using assms
  by (simp add: u_pay_def get_invoice_status_def get_invoice_info_def Let_def)

theorem pay_rejects_paid_invoice_witness:
  "lndecode env0 ''lnltc1a'' = Inr addr_a \<and>
   map_of (invoices wallet1) (bh2u (paymenthash addr_a)) = Some (Some 100000, SENT, PR_PAID) \<and>
   u_pay env0 wallet1 ''lnltc1a'' None 1 =
     (Inl (PaymentFailure ''This invoice has been paid already''), wallet1)"
proof -
  have d: "lndecode env0 ''lnltc1a'' = Inr addr_a" by (simp add: env0_def)
  have m: "map_of (invoices wallet1) (bh2u (paymenthash addr_a)) = Some (Some 100000, SENT, PR_PAID)"
    by (simp add: wallet1_def addr_a_def bh2u_def hex_byte_def hex_digit_def)
  show ?thesis using d m pay_rejects_paid_invoice [OF d m] by simp
qed

lemma private_route_loop_Some:
  "private_route_loop E chans pk amt mc r_tags = Some route \<Longrightarrow>
   is_route_sane_to_use E route amt mc"
  by (induction r_tags) (auto split: option.splits if_splits)

lemma private_route_loop_None:
  "\<forall>private_route \<in> set r_tags.
     (case private_route_candidate E chans pk amt private_route of
        None \<Rightarrow> True
      | Some route \<Rightarrow> \<not> is_route_sane_to_use E route amt mc) \<Longrightarrow>
   private_route_loop E chans pk amt mc r_tags = None"
  by (induction r_tags) (auto split: option.splits)

text \<open>
  Claim C1, as amended. Every route returned by \<open>_create_route_from_invoice\<close> satisfies
  \<open>is_route_sane_to_use(route, amount_msat, min_final_cltv_expiry)\<close>; and for a decoded
  invoice that carries an amount, if neither a private-hint route nor a direct route to
  the payee passes that check, the call raises \<open>PaymentFailure\<close> "No path found".
  (\<open>random.shuffle\<close> permutes the hints.)
\<close>

theorem create_route_from_invoice_sane:
  "(\<forall>route. u_create_route_from_invoice E s decoded_invoice = Inr route \<longrightarrow>
      (\<exists>a. la_amount decoded_invoice = Some a \<and>
           is_route_sane_to_use E route (py_int (a * of_int (COIN E) * 1000))
             (get_min_final_cltv_expiry E decoded_invoice)))
   \<and> (\<forall>a. la_amount decoded_invoice = Some a \<and>
          set (shuffle E (r_tags_of (la_tags decoded_invoice))) =
            set (r_tags_of (la_tags decoded_invoice)) \<and>
          no_sane_route E s decoded_invoice (py_int (a * of_int (COIN E) * 1000)) \<longrightarrow>
          u_create_route_from_invoice E s decoded_invoice =
            Inl (PaymentFailure ''No path found''))"
proof (intro conjI allI impI)
  fix route
  assume "u_create_route_from_invoice E s decoded_invoice = Inr route"
  then show "\<exists>a. la_amount decoded_invoice = Some a \<and>
           is_route_sane_to_use E route (py_int (a * of_int (COIN E) * 1000))
             (get_min_final_cltv_expiry E decoded_invoice)"
    by (auto simp: u_create_route_from_invoice_def Let_def
        split: option.splits if_splits dest: private_route_loop_Some)
next
  fix a
  assume h: "la_amount decoded_invoice = Some a \<and>
          set (shuffle E (r_tags_of (la_tags decoded_invoice))) =
            set (r_tags_of (la_tags decoded_invoice)) \<and>
          no_sane_route E s decoded_invoice (py_int (a * of_int (COIN E) * 1000))"
  let ?amt = "py_int (a * of_int (COIN E) * 1000)"
  let ?chans = "map (\<lambda>(k, r). heap s r) (channels s)"
  have "private_route_loop E ?chans (la_pubkey decoded_invoice) ?amt
          (get_min_final_cltv_expiry E decoded_invoice)
          (shuffle E (r_tags_of (la_tags decoded_invoice))) = None"
    using h by (intro private_route_loop_None) (simp add: no_sane_route_def Let_def)
  then show "u_create_route_from_invoice E s decoded_invoice =
            Inl (PaymentFailure ''No path found'')"
    using h
    by (auto simp: u_create_route_from_invoice_def no_sane_route_def Let_def
        split: option.splits)
qed


lemma amount_msat_example: "py_int (1 / 1000 * of_int (COIN env0) * 1000) = 100000000"
  by (simp add: py_int_def env0_def)

theorem create_route_from_invoice_sane_witness:
  "la_amount addr_c = Some (1 / 1000) \<and>
   u_create_route_from_invoice env0 wallet1 addr_c =
     Inr [RouteEdge [5] [6] 0 0 1, RouteEdge [77] [33] 1 2 3] \<and>
   is_route_sane_to_use env0 [RouteEdge [5] [6] 0 0 1, RouteEdge [77] [33] 1 2 3] 100000000 9 \<and>
   la_amount addr_a = Some (1 / 1000) \<and>
   no_sane_route env0 wallet0 addr_a 100000000 \<and>
   u_create_route_from_invoice env0 wallet0 addr_a = Inl (PaymentFailure ''No path found'')"
proof -
  have a: "la_amount addr_c = Some (1 / 1000)" "la_amount addr_a = Some (1 / 1000)"
    by (simp_all add: addr_c_def addr_a_def)
  have r: "u_create_route_from_invoice env0 wallet1 addr_c =
             Inr [RouteEdge [5] [6] 0 0 1, RouteEdge [77] [33] 1 2 3]"
    by (simp add: u_create_route_from_invoice_def private_route_candidate_def addr_c_def
        wallet1_def env0_def py_int_def Let_def)
  have m: "get_min_final_cltv_expiry env0 x = 9" for x by (simp add: env0_def)
  have sh: "set (shuffle env0 (r_tags_of (la_tags addr_a))) = set (r_tags_of (la_tags addr_a))"
    by (simp add: env0_def)
  have n: "no_sane_route env0 wallet0 addr_a 100000000"
    by (simp add: no_sane_route_def wallet0_def addr_a_def env0_def)
  have n': "no_sane_route env0 wallet0 addr_a (py_int (1 / 1000 * of_int (COIN env0) * 1000))"
    using n by (simp only: amount_msat_example)
  from create_route_from_invoice_sane [of env0 wallet1 addr_c, THEN conjunct1, rule_format, OF r]
  obtain x where x: "la_amount addr_c = Some x"
    and sx: "is_route_sane_to_use env0 [RouteEdge [5] [6] 0 0 1, RouteEdge [77] [33] 1 2 3]
               (py_int (x * of_int (COIN env0) * 1000)) (get_min_final_cltv_expiry env0 addr_c)"
    by blast
  from x a(1) have "x = 1 / 1000" by (simp only: option.inject)
  with sx have s1: "is_route_sane_to_use env0 [RouteEdge [5] [6] 0 0 1, RouteEdge [77] [33] 1 2 3]
                      100000000 9"
    by (simp only: amount_msat_example m)
  have s2: "u_create_route_from_invoice env0 wallet0 addr_a = Inl (PaymentFailure ''No path found'')"
    by (rule create_route_from_invoice_sane [of env0 wallet0 addr_a, THEN conjunct2, rule_format,
          OF conjI [OF a(2) conjI [OF sh n']]])
  show ?thesis using a r s1 n s2 by simp
qed

text \<open>
  Claim C1 as stated speaks of every decoded invoice. For an invoice without an amount
  (and here without hints, in a worker without channels, so that no route passes the
  check) the call raises \<open>TypeError\<close>, not \<open>PaymentFailure\<close>.
\<close>

theorem create_route_amountless_counterexample:
  "la_amount addr_b = None \<and> r_tags_of (la_tags addr_b) = [] \<and> channels wallet0 = [] \<and>
   u_create_route_from_invoice env0 wallet0 addr_b = Inl TypeError"
  by (simp add: u_create_route_from_invoice_def addr_b_def wallet0_def)

subsection \<open>On-chain reaction\<close>

text \<open>
  Claim C5. When \<open>sweep_info.gen_tx()\<close> produces no transaction, \<open>try_redeem\<close> is to
  drop it and complete normally. The code logs the dust case and then goes on to
  \<open>tx.txid()\<close>: the call raises \<open>AttributeError\<close> (nothing is broadcast or registered).
\<close>

theorem try_redeem_dust_raises:
  "try_redeem env0 wallet0 ''aa:0'' sweep_dust = (Inl AttributeError, wallet0)"
  by (simp add: try_redeem_def sweep_dust_def truthy_def env0_def Let_def)

end
